theory Spec2Isabelle
  imports Complex_Main "HOL-Library.AList" "HOL-Library.Sublist"
begin

section \<open>Data model (types/index.ts)\<close>

text \<open>
  JavaScript values that travel through the client (request parameters, request bodies,
  response payloads) are modelled as a JSON-like datatype. An object is an association list
  in insertion order, since \<^verbatim>\<open>JSON.stringify\<close> follows that order. Numbers are modelled as
  reals; \<^verbatim>\<open>NaN\<close>, the infinities and the rounding of IEEE doubles are outside the model.
\<close>

datatype json =
    JNull
  | JBool bool
  | JNum real
  | JStr string
  | JArr "json list"
  | JObj "(string \<times> json) list"

text \<open>JavaScript truthiness, as used by \<^verbatim>\<open>x || y\<close>.\<close>

fun truthy :: "json \<Rightarrow> bool" where
  "truthy JNull = False"
| "truthy (JBool b) = b"
| "truthy (JNum x) = (x \<noteq> 0)"
| "truthy (JStr s) = (s \<noteq> [])"
| "truthy (JArr xs) = True"
| "truthy (JObj kvs) = True"

datatype HttpMethod = GET | POST | PUT | DELETE

fun method_string :: "HttpMethod \<Rightarrow> string" where
  "method_string GET = ''GET''"
| "method_string POST = ''POST''"
| "method_string PUT = ''PUT''"
| "method_string DELETE = ''DELETE''"

datatype ApiEndpoint =
    VerificationStatus
  | WhitelistCheck
  | TokenBalance
  | TokenTransfer
  | MetricsKol
  | MetricsCommunity

fun endpoint_string :: "ApiEndpoint \<Rightarrow> string" where
  "endpoint_string VerificationStatus = ''/verification/status''"
| "endpoint_string WhitelistCheck = ''/whitelist/check''"
| "endpoint_string TokenBalance = ''/token/balance''"
| "endpoint_string TokenTransfer = ''/token/transfer''"
| "endpoint_string MetricsKol = ''/metrics/kol''"
| "endpoint_string MetricsCommunity = ''/metrics/community''"

text \<open>An optional field (\<^verbatim>\<open>params?\<close>, \<^verbatim>\<open>body?\<close>, \<^verbatim>\<open>headers?\<close>) is \<open>None\<close> when it is
  absent (\<^verbatim>\<open>undefined\<close>).\<close>

record ApiRequestConfig =
  endpoint :: ApiEndpoint
  "method" :: HttpMethod
  params :: "(string \<times> json) list option"
  body :: "json option"
  headers :: "(string \<times> string) list option"

record ApiError =
  code :: string
  message :: string
  details :: "json option"

record ApiResponse =
  success :: bool
  data :: "json option"
  error :: "ApiError option"
  pagination :: "json option"

text \<open>The transfer parameters: the properties the code reads, and the caller's object as
  it is enumerated when it is serialized (its own keys in their order, any further keys
  included), since the object itself becomes the request body.\<close>

record TransactionParams =
  tx_from :: string
  tx_to :: string
  amount :: real
  memo :: "string option"
  tx_object :: "(string \<times> json) list"

section \<open>Request key (apiService.ts, createRequestId)\<close>

text \<open>
  \<^verbatim>\<open>`${config.method}:${config.endpoint}:${JSON.stringify(config.params || {})}:${JSON.stringify(config.body || {})}`\<close>

  \<^verbatim>\<open>JSON.stringify\<close> belongs to the runtime, not to the repository: it is the parameter
  \<open>stringify\<close>. An object is always truthy, so \<^verbatim>\<open>params || {}\<close> replaces only an absent
  \<open>params\<close>; \<^verbatim>\<open>body || {}\<close> replaces an absent body and every falsy one.
\<close>

definition params_or_empty :: "(string \<times> json) list option \<Rightarrow> json" where
  "params_or_empty p = (case p of None \<Rightarrow> JObj [] | Some kvs \<Rightarrow> JObj kvs)"

definition body_or_empty :: "json option \<Rightarrow> json" where
  "body_or_empty b = (case b of None \<Rightarrow> JObj [] | Some v \<Rightarrow> (if truthy v then v else JObj []))"

definition createRequestId :: "(json \<Rightarrow> string) \<Rightarrow> ApiRequestConfig \<Rightarrow> string" where
  "createRequestId stringify config =
     method_string (method config) @ '':'' @ endpoint_string (endpoint config) @ '':'' @
     stringify (params_or_empty (params config)) @ '':'' @
     stringify (body_or_empty (body config))"

section \<open>Cache (apiService.ts, class ApiCache)\<close>

text \<open>
  The cache is a \<^verbatim>\<open>Map<string, {data, expiry}>\<close>. \<^verbatim>\<open>Date.now()\<close> is the argument
  \<open>now\<close> of each operation that reads the clock.
\<close>

record 'a cache_entry =
  entry_data :: 'a
  expiry :: int

type_synonym 'a ApiCache = "string \<rightharpoonup> 'a cache_entry"

definition cache_set :: "string \<Rightarrow> 'a \<Rightarrow> int \<Rightarrow> int \<Rightarrow> 'a ApiCache \<Rightarrow> 'a ApiCache" where
  "cache_set key d ttlMs now c = c(key \<mapsto> \<lparr>entry_data = d, expiry = now + ttlMs\<rparr>)"

text \<open>\<open>cache_get\<close> returns the value read (\<open>None\<close> for \<^verbatim>\<open>null\<close>) and the cache it leaves.\<close>

definition cache_get :: "string \<Rightarrow> int \<Rightarrow> 'a ApiCache \<Rightarrow> 'a option \<times> 'a ApiCache" where
  "cache_get key now c =
     (case c key of
        None \<Rightarrow> (None, c)
      | Some entry \<Rightarrow>
          if now > expiry entry then (None, c(key := None))
          else (Some (entry_data entry), c))"

definition cache_delete :: "string \<Rightarrow> 'a ApiCache \<Rightarrow> 'a ApiCache" where
  "cache_delete key c = c(key := None)"

definition cache_clear :: "'a ApiCache \<Rightarrow> 'a ApiCache" where
  "cache_clear c = Map.empty"

definition clearExpired :: "int \<Rightarrow> 'a ApiCache \<Rightarrow> 'a ApiCache" where
  "clearExpired now c =
     (\<lambda>key. case c key of
        None \<Rightarrow> None
      | Some entry \<Rightarrow> if now > expiry entry then None else Some entry)"

section \<open>Utilities (apiUtils.ts)\<close>

datatype environment = mainnet | testnet | development

fun getApiBaseUrl :: "environment \<Rightarrow> string" where
  "getApiBaseUrl mainnet = ''https://api.kolcoin.xyz/v1''"
| "getApiBaseUrl testnet = ''https://testnet-api.kolcoin.xyz/v1''"
| "getApiBaseUrl development = ''https://dev-api.kolcoin.xyz/v1''"

text \<open>
  \<^verbatim>\<open>Math.random()\<close> is the argument \<open>rnd\<close>; the runtime draws it from \<open>[0, 1)\<close>. The optional
  \<^verbatim>\<open>baseDelay\<close> is \<open>None\<close> when the caller leaves it out. The attempt number is a natural
  number, as every caller in the repository passes a retry count.
\<close>

definition calculateBackoff :: "real \<Rightarrow> nat \<Rightarrow> real option \<Rightarrow> real" where
  "calculateBackoff rnd attempt baseDelayArg =
     (let baseDelay = (case baseDelayArg of None \<Rightarrow> 300 | Some b \<Rightarrow> b);
          maxDelay = 10000;
          jitter = rnd * 0.3 + 0.85;
          delay = min maxDelay (baseDelay * 2 ^ attempt * jitter)
      in delay)"

text \<open>\<^verbatim>\<open>/^[1-9A-HJ-NP-Za-km-z]{32,44}$/.test(address)\<close>\<close>

definition char_in_range :: "char \<Rightarrow> char \<Rightarrow> char \<Rightarrow> bool" where
  "char_in_range lo hi c =
     ((of_char lo :: nat) \<le> of_char c \<and> (of_char c :: nat) \<le> of_char hi)"

definition base58_char :: "char \<Rightarrow> bool" where
  "base58_char c =
     (char_in_range CHR ''1'' CHR ''9'' c \<or> char_in_range CHR ''A'' CHR ''H'' c \<or>
      char_in_range CHR ''J'' CHR ''N'' c \<or> char_in_range CHR ''P'' CHR ''Z'' c \<or>
      char_in_range CHR ''a'' CHR ''k'' c \<or> char_in_range CHR ''m'' CHR ''z'' c)"

definition isValidSolanaAddress :: "string \<Rightarrow> bool" where
  "isValidSolanaAddress address =
     (32 \<le> length address \<and> length address \<le> 44 \<and> list_all base58_char address)"

section \<open>The API service (apiService.ts, class KolcoinApiService)\<close>

record ApiCredentials =
  cred_apiKey :: string
  cred_environment :: environment

text \<open>The optional constructor options are \<open>None\<close> when absent. The logger has no effect
  on the state below and is left out.\<close>

record ApiServiceOptions =
  credentials :: ApiCredentials
  opt_autoRetry :: "bool option"
  opt_maxRetries :: "real option"
  opt_cacheTime :: "int option"

datatype timer_callback = ClearExpiredCache

text \<open>
  The fields of the class, followed by the effects of the instance on the runtime:
  \<^item> \<open>pendingRequests\<close> is a \<^verbatim>\<open>Map\<close> in insertion order (the order \<^verbatim>\<open>entries()\<close> iterates
    in); a cancel handle is the number of the fetch whose \<^verbatim>\<open>AbortController\<close> it aborts;
  \<^item> \<open>aborted\<close> logs every invocation of a cancel handle, in order;
  \<^item> \<open>fetches\<close> counts the calls of \<^verbatim>\<open>createCancellableFetch\<close> (the network calls issued);
  \<^item> \<open>clock_reads\<close> and \<open>random_draws\<close> count the calls of \<^verbatim>\<open>Date.now()\<close> and
    \<^verbatim>\<open>Math.random()\<close>;
  \<^item> \<open>sleeps\<close> logs the delay of every \<^verbatim>\<open>setTimeout\<close> the executor has awaited;
  \<^item> \<open>intervals\<close> lists the interval timers that are scheduled, with their period.
\<close>

record service_state =
  baseUrl :: string
  apiKey :: string
  autoRetry :: bool
  maxRetries :: real
  pendingRequests :: "(string \<times> nat) list"
  cache :: "ApiResponse ApiCache"
  cacheTime :: int
  aborted :: "nat list"
  fetches :: nat
  clock_reads :: nat
  random_draws :: nat
  sleeps :: "real list"
  intervals :: "(nat \<times> timer_callback) list"

text \<open>\<^verbatim>\<open>x || d\<close> on an optional number: absent and \<open>0\<close> are falsy. The number of retries
  allowed is any number the caller passes (nothing validates it), so it is a real; the cache
  time is added to the integer clock and is kept an integer.\<close>

definition number_or :: "'a::zero option \<Rightarrow> 'a \<Rightarrow> 'a" where
  "number_or x d = (case x of None \<Rightarrow> d | Some n \<Rightarrow> (if n = 0 then d else n))"

definition new_KolcoinApiService :: "ApiServiceOptions \<Rightarrow> service_state" where
  "new_KolcoinApiService options =
     \<lparr> baseUrl = getApiBaseUrl (cred_environment (credentials options)),
       apiKey = cred_apiKey (credentials options),
       autoRetry = (opt_autoRetry options \<noteq> Some False),
       maxRetries = number_or (opt_maxRetries options) 3,
       pendingRequests = [],
       cache = Map.empty,
       cacheTime = number_or (opt_cacheTime options) 60000,
       aborted = [],
       fetches = 0,
       clock_reads = 0,
       random_draws = 0,
       sleeps = [],
       intervals = [(60000, ClearExpiredCache)] \<rparr>"

subsection \<open>The environment of a run\<close>

text \<open>
  What the executor cannot decide is given by the environment: the serializer, the outcome
  of the \<open>n\<close>-th fetch, the \<open>n\<close>-th reading of the clock and the \<open>n\<close>-th random draw.
  A fetch either makes the \<^verbatim>\<open>try\<close> block throw before the request is registered (building
  the URL or the fetch options), or makes \<^verbatim>\<open>await promise\<close> throw, or settles with an
  envelope (\<^verbatim>\<open>createCancellableFetch\<close> turns HTTP errors, network failures and aborts into
  error envelopes).
\<close>

datatype thrown = ErrorObject string | OtherValue json

datatype fetch_outcome =
    PrepareThrows thrown
  | AwaitThrows thrown
  | Settles ApiResponse

record env =
  stringify :: "json \<Rightarrow> string"
  network :: "nat \<Rightarrow> fetch_outcome"
  clock :: "nat \<Rightarrow> int"
  random :: "nat \<Rightarrow> real"

definition error_response :: "string \<Rightarrow> string \<Rightarrow> json option \<Rightarrow> ApiResponse" where
  "error_response c m d =
     \<lparr> success = False, data = None,
       error = Some \<lparr> code = c, message = m, details = d \<rparr>,
       pagination = None \<rparr>"

text \<open>The envelope of the \<^verbatim>\<open>catch\<close> block. An \<^verbatim>\<open>Error\<close> object kept as detail is shown as
  an object holding its message.\<close>

definition request_failed :: "thrown \<Rightarrow> ApiResponse" where
  "request_failed e =
     (case e of
        ErrorObject m \<Rightarrow>
          error_response ''REQUEST_FAILED'' m (Some (JObj [(''message'', JStr m)]))
      | OtherValue v \<Rightarrow>
          error_response ''REQUEST_FAILED'' ''Unknown error occurred'' (Some v))"

subsection \<open>The steps of executeRequest\<close>

text \<open>Lines 122-128: \<^verbatim>\<open>this.cache.get(requestId)\<close>, which reads the clock when the key has an
  entry and returns before that when it has none.\<close>

definition cache_lookup :: "env \<Rightarrow> string \<Rightarrow> service_state \<Rightarrow> ApiResponse option \<times> service_state" where
  "cache_lookup e requestId s =
     (let (r, c) = cache_get requestId (clock e (clock_reads s)) (cache s)
      in (r, s\<lparr>cache := c,
               clock_reads := (if cache s requestId = None then clock_reads s
                               else Suc (clock_reads s))\<rparr>))"

text \<open>Lines 130-135: cancel a pending request with the same key and remove it.\<close>

definition cancel_duplicate :: "string \<Rightarrow> service_state \<Rightarrow> service_state" where
  "cancel_duplicate requestId s =
     (case map_of (pendingRequests s) requestId of
        None \<Rightarrow> s
      | Some h \<Rightarrow>
          s\<lparr>aborted := aborted s @ [h],
            pendingRequests := AList.delete requestId (pendingRequests s)\<rparr>)"

text \<open>Lines 157-160: start the fetch and store its cancel handle.\<close>

definition register_pending :: "string \<Rightarrow> service_state \<Rightarrow> service_state" where
  "register_pending requestId s =
     s\<lparr>pendingRequests := AList.update requestId (fetches s) (pendingRequests s),
       fetches := Suc (fetches s)\<rparr>"

text \<open>Lines 166 and 205: \<^verbatim>\<open>this.pendingRequests.delete(requestId)\<close>.\<close>

definition remove_pending :: "string \<Rightarrow> service_state \<Rightarrow> service_state" where
  "remove_pending requestId s =
     s\<lparr>pendingRequests := AList.delete requestId (pendingRequests s)\<rparr>"

text \<open>Lines 170-171: the classification of an error envelope as transient.\<close>

definition shouldRetry :: "ApiResponse \<Rightarrow> bool" where
  "shouldRetry response =
     (case error response of
        None \<Rightarrow> False
      | Some err \<Rightarrow> prefix ''HTTP_5'' (code err) \<or> code err = ''NETWORK_ERROR'')"

text \<open>Lines 174-181: draw the jitter, compute the delay and wait for it.\<close>

definition backoff_sleep :: "env \<Rightarrow> nat \<Rightarrow> service_state \<Rightarrow> service_state" where
  "backoff_sleep e retryCount s =
     s\<lparr>sleeps := sleeps s @ [calculateBackoff (random e (random_draws s)) retryCount None],
       random_draws := Suc (random_draws s)\<rparr>"

text \<open>Lines 191-196: cache a successful response, then return it.\<close>

definition cache_and_return :: "env \<Rightarrow> string \<Rightarrow> bool \<Rightarrow> ApiResponse \<Rightarrow> service_state \<Rightarrow> ApiResponse \<times> service_state" where
  "cache_and_return e requestId useCache response s =
     (if success response \<and> useCache
      then (response,
            s\<lparr>cache := cache_set requestId response (cacheTime s) (clock e (clock_reads s)) (cache s),
              clock_reads := Suc (clock_reads s)\<rparr>)
      else (response, s))"

subsection \<open>executeRequest\<close>

text \<open>The options after destructuring; \<open>default_options\<close> holds the defaults
  \<^verbatim>\<open>{ useCache = true, bypassCache = false, retryCount = 0 }\<close>.\<close>

record exec_options =
  useCache :: bool
  bypassCache :: bool
  retryCount :: nat

definition default_options :: exec_options where
  "default_options = \<lparr> useCache = True, bypassCache = False, retryCount = 0 \<rparr>"

text \<open>
  An \<^verbatim>\<open>async\<close> function runs in segments that end at its \<^verbatim>\<open>await\<close>s. The first segment of
  \<open>executeRequest\<close> (lines 118-163) either returns (a cached envelope, or the envelope of the
  \<^verbatim>\<open>catch\<close> block when the preparation of the fetch throws) or reaches \<^verbatim>\<open>await promise\<close> with
  the fetch started and its cancel handle stored under the request key.
\<close>

datatype begin_result =
    Returned ApiResponse service_state
  | AwaitingFetch string nat service_state

definition executeRequest_begin :: "env \<Rightarrow> ApiRequestConfig \<Rightarrow> exec_options \<Rightarrow> service_state \<Rightarrow> begin_result" where
  "executeRequest_begin e config options s =
     (let requestId = createRequestId (stringify e) config;
          looked = (if useCache options \<and> \<not> bypassCache options
                    then cache_lookup e requestId s else (None, s))
      in case fst looked of
           Some cachedData \<Rightarrow> Returned cachedData (snd looked)
         | None \<Rightarrow>
             (let s2 = cancel_duplicate requestId (snd looked)
              in case network e (fetches s2) of
                   PrepareThrows err \<Rightarrow>
                     Returned (request_failed err) (remove_pending requestId s2)
                 | AwaitThrows err \<Rightarrow>
                     AwaitingFetch requestId (fetches s2) (register_pending requestId s2)
                 | Settles response \<Rightarrow>
                     AwaitingFetch requestId (fetches s2) (register_pending requestId s2)))"

text \<open>
  The second segment (lines 163-215) runs when the fetch has settled, in the state the
  service is in by then: it removes the key from the registry and either returns (the
  envelope of the \<^verbatim>\<open>catch\<close> block after a throw, or the response, cached if it succeeded) or
  reaches the \<^verbatim>\<open>await\<close> of the backoff, after which the function calls itself with the new
  options.
\<close>

datatype settle_result =
    Finished ApiResponse service_state
  | AwaitingBackoff exec_options service_state

definition executeRequest_settled :: "env \<Rightarrow> exec_options \<Rightarrow> string \<Rightarrow> fetch_outcome \<Rightarrow> service_state \<Rightarrow> settle_result" where
  "executeRequest_settled e options requestId outcome s =
     (case outcome of
        PrepareThrows err \<Rightarrow> Finished (request_failed err) (remove_pending requestId s)
      | AwaitThrows err \<Rightarrow> Finished (request_failed err) (remove_pending requestId s)
      | Settles response \<Rightarrow>
          (let s3 = remove_pending requestId s
           in if \<not> success response \<and> autoRetry s3 \<and> real (retryCount options) < maxRetries s3
              then (if shouldRetry response
                    then AwaitingBackoff
                           \<lparr> useCache = useCache options, bypassCache = True,
                             retryCount = retryCount options + 1 \<rparr>
                           (backoff_sleep e (retryCount options) s3)
                    else (case cache_and_return e requestId (useCache options) response s3 of
                            (r, s4) \<Rightarrow> Finished r s4))
              else (case cache_and_return e requestId (useCache options) response s3 of
                      (r, s4) \<Rightarrow> Finished r s4)))"



text \<open>
  One run of the executor, from its call to the value its promise resolves with, together
  with the state it leaves: the segments one after the other, the fetch settling as the
  environment says. The recursion is the retry; it ends because a retry needs
  \<open>retryCount < maxRetries\<close> and raises \<open>retryCount\<close> by one. The run follows this call
  alone: what other calls do to the service while this one awaits its fetch or its backoff
  is the subject of the relation \<open>reachable\<close> further down. The serializer is a total
  function, so the request key is always computed.
\<close>

function executeRequest :: "env \<Rightarrow> ApiRequestConfig \<Rightarrow> exec_options \<Rightarrow> service_state \<Rightarrow> ApiResponse \<times> service_state" where
  "executeRequest e config options s =
     (case executeRequest_begin e config options s of
        Returned r s1 \<Rightarrow> (r, s1)
      | AwaitingFetch requestId h s1 \<Rightarrow>
          (case executeRequest_settled e options requestId (network e h) s1 of
             Finished r s2 \<Rightarrow> (r, s2)
           | AwaitingBackoff options' s2 \<Rightarrow> executeRequest e config options' s2))"
  by pat_completeness auto
termination
proof -
  have cancel: "maxRetries (cancel_duplicate k s) = maxRetries s" for k s
    by (simp add: cancel_duplicate_def split: option.split)
  have lookup: "maxRetries (snd (cache_lookup e k s)) = maxRetries s" for e k s
    by (simp add: cache_lookup_def split: prod.split)
  have began: "maxRetries s1 = maxRetries s"
    if "executeRequest_begin e config options s = AwaitingFetch k h s1" for e config options s k h s1
    using that
    by (auto simp: executeRequest_begin_def Let_def register_pending_def cancel lookup
          split: option.splits fetch_outcome.splits if_splits)
  have settled: "real (retryCount options) < maxRetries s1
      \<and> retryCount options' = Suc (retryCount options) \<and> maxRetries s2 = maxRetries s1"
    if "executeRequest_settled e options k outcome s1 = AwaitingBackoff options' s2"
    for e options k outcome s1 options' s2
    using that
    by (auto simp: executeRequest_settled_def Let_def remove_pending_def backoff_sleep_def
          split: fetch_outcome.splits if_splits prod.splits)
  have less: "nat \<lceil>m - real (Suc n)\<rceil> < nat \<lceil>m - real n\<rceil>" if "real n < m" for m :: real and n
    using that by (simp add: nat_less_iff) linarith
  show ?thesis
  proof (relation "measure (\<lambda>(e, config, options, s). nat \<lceil>maxRetries s - real (retryCount options)\<rceil>)",
      goal_cases)
    case 1
    show ?case by simp
  next
    case (2 e config options s requestId h s1 options' s2)
    from settled [OF 2(2)] began [OF 2(1)]
    have "real (retryCount options) < maxRetries s"
      and "retryCount options' = Suc (retryCount options)" and "maxRetries s2 = maxRetries s"
      by simp_all
    with less [of "retryCount options" "maxRetries s"] show ?case
      by (simp del: of_nat_Suc)
  qed
qed

declare executeRequest.simps [simp del]

subsection \<open>cancelAllRequests and the cache sweep\<close>

text \<open>Every cancel handle is invoked, in the order of the registry, which is then cleared.\<close>

definition cancelAllRequests :: "service_state \<Rightarrow> service_state" where
  "cancelAllRequests s =
     s\<lparr>aborted := aborted s @ map snd (pendingRequests s), pendingRequests := []\<rparr>"

text \<open>What the runtime does when an interval timer fires: it runs the callback if the timer
  is still scheduled. The only callback of the service is the sweep of line 97, which reads
  the clock once.\<close>

definition run_callback :: "env \<Rightarrow> timer_callback \<Rightarrow> service_state \<Rightarrow> service_state" where
  "run_callback e cb s =
     (case cb of
        ClearExpiredCache \<Rightarrow>
          s\<lparr>cache := clearExpired (clock e (clock_reads s)) (cache s),
            clock_reads := Suc (clock_reads s)\<rparr>)"

definition interval_fires :: "env \<Rightarrow> nat \<times> timer_callback \<Rightarrow> service_state \<Rightarrow> service_state" where
  "interval_fires e t s = (if t \<in> set (intervals s) then run_callback e (snd t) s else s)"

subsection \<open>Domain methods\<close>

definition invalid_wallet :: "string \<Rightarrow> ApiResponse" where
  "invalid_wallet msg = error_response ''INVALID_WALLET'' msg None"

definition checkVerificationStatus :: "env \<Rightarrow> string \<Rightarrow> service_state \<Rightarrow> ApiResponse \<times> service_state" where
  "checkVerificationStatus e wallet s =
     (if \<not> isValidSolanaAddress wallet
      then (invalid_wallet ''The provided wallet address is invalid'', s)
      else executeRequest e
             \<lparr> endpoint = VerificationStatus, method = GET,
               params = Some [(''wallet'', JStr wallet)], body = None, headers = None \<rparr>
             default_options s)"

definition checkWhitelistStatus :: "env \<Rightarrow> string \<Rightarrow> service_state \<Rightarrow> ApiResponse \<times> service_state" where
  "checkWhitelistStatus e walletAddress s =
     (if \<not> isValidSolanaAddress walletAddress
      then (invalid_wallet ''The provided wallet address is invalid'', s)
      else executeRequest e
             \<lparr> endpoint = WhitelistCheck, method = POST,
               params = None, body = Some (JObj [(''walletAddress'', JStr walletAddress)]),
               headers = None \<rparr>
             default_options s)"

definition getKolMetrics :: "env \<Rightarrow> string \<Rightarrow> service_state \<Rightarrow> ApiResponse \<times> service_state" where
  "getKolMetrics e wallet s =
     (if \<not> isValidSolanaAddress wallet
      then (invalid_wallet ''The provided wallet address is invalid'', s)
      else executeRequest e
             \<lparr> endpoint = MetricsKol, method = GET,
               params = Some [(''wallet'', JStr wallet)], body = None, headers = None \<rparr>
             default_options s)"

text \<open>\<^verbatim>\<open>body: params\<close>: the caller's object is the request body.\<close>

definition transaction_json :: "TransactionParams \<Rightarrow> json" where
  "transaction_json p = JObj (tx_object p)"

definition transferTokens :: "env \<Rightarrow> TransactionParams \<Rightarrow> service_state \<Rightarrow> ApiResponse \<times> service_state" where
  "transferTokens e p s =
     (if \<not> isValidSolanaAddress (tx_from p) \<or> \<not> isValidSolanaAddress (tx_to p)
      then (invalid_wallet ''One or more wallet addresses are invalid'', s)
      else if amount p \<le> 0
      then (error_response ''INVALID_AMOUNT'' ''Transfer amount must be greater than zero'' None, s)
      else executeRequest e
             \<lparr> endpoint = TokenTransfer, method = POST,
               params = None, body = Some (transaction_json p), headers = None \<rparr>
             (default_options\<lparr>useCache := False\<rparr>) s)"

section \<open>The SDK facade (KolcoinSDK: constructor and dispose)\<close>

record SdkConfig =
  apiCredentials :: ApiCredentials
  cfg_autoRetry :: "bool option"
  cfg_maxRetries :: "real option"
  cfg_cacheTime :: "int option"

text \<open>Of the event service only the listener table matters to \<^verbatim>\<open>dispose\<close>: event type
  names with the callbacks subscribed to them.\<close>

record KolcoinSDK =
  apiService :: service_state
  listeners :: "(string \<times> nat list) list"

definition new_KolcoinSDK :: "SdkConfig \<Rightarrow> KolcoinSDK" where
  "new_KolcoinSDK config =
     \<lparr> apiService = new_KolcoinApiService
         \<lparr> credentials = apiCredentials config,
           opt_autoRetry = cfg_autoRetry config,
           opt_maxRetries = cfg_maxRetries config,
           opt_cacheTime = cfg_cacheTime config \<rparr>,
       listeners = [] \<rparr>"

text \<open>\<^verbatim>\<open>dispose\<close>: cancel the pending requests, then remove all event listeners.\<close>

definition dispose :: "KolcoinSDK \<Rightarrow> KolcoinSDK" where
  "dispose sdk = \<lparr> apiService = cancelAllRequests (apiService sdk), listeners = [] \<rparr>"

section \<open>Observation points and invariants\<close>

text \<open>The result of the cache check at the head of \<open>executeRequest\<close> (lines 122-128): the
  cached envelope, if one is served, and the state after the check.\<close>

definition after_lookup :: "env \<Rightarrow> ApiRequestConfig \<Rightarrow> exec_options \<Rightarrow> service_state \<Rightarrow> ApiResponse option \<times> service_state" where
  "after_lookup e config options s =
     (if useCache options \<and> \<not> bypassCache options
      then cache_lookup e (createRequestId (stringify e) config) s else (None, s))"

text \<open>The number of the fetch that this call issues when the cache does not serve it.\<close>

definition issued_fetch :: "env \<Rightarrow> ApiRequestConfig \<Rightarrow> exec_options \<Rightarrow> service_state \<Rightarrow> nat" where
  "issued_fetch e config options s =
     fetches (cancel_duplicate (createRequestId (stringify e) config)
                (snd (after_lookup e config options s)))"

text \<open>The state when that fetch has settled and line 166 has run.\<close>

definition after_settle :: "env \<Rightarrow> ApiRequestConfig \<Rightarrow> exec_options \<Rightarrow> service_state \<Rightarrow> service_state" where
  "after_settle e config options s =
     (let requestId = createRequestId (stringify e) config
      in remove_pending requestId (register_pending requestId
           (cancel_duplicate requestId (snd (after_lookup e config options s)))))"


text \<open>
  Calls of the service interleave at their \<^verbatim>\<open>await\<close>s only. The states the service can be
  in are those reached from a fresh instance by the synchronous segments of its methods, in
  any order and for any request: the cache check; the start of a fetch (lines 130-160); the
  \<^verbatim>\<open>catch\<close> block after a throw before registration; the settlement of a fetch (line 166 or
  205); the start of a backoff; the caching of a response; \<open>cancelAllRequests\<close>; a timer
  callback.
\<close>

inductive reachable :: "service_state \<Rightarrow> bool" where
  constructed: "reachable (new_KolcoinApiService opts)"
| looked_up: "reachable s \<Longrightarrow> reachable (snd (cache_lookup e k s))"
| started: "reachable s \<Longrightarrow> reachable (register_pending k (cancel_duplicate k s))"
| prepare_failed: "reachable s \<Longrightarrow> reachable (remove_pending k (cancel_duplicate k s))"
| settled: "reachable s \<Longrightarrow> reachable (remove_pending k s)"
| slept: "reachable s \<Longrightarrow> reachable (backoff_sleep e n s)"
| stored: "reachable s \<Longrightarrow> reachable (snd (cache_and_return e k u r s))"
| cancelled_all: "reachable s \<Longrightarrow> reachable (cancelAllRequests s)"
| timer_fired: "reachable s \<Longrightarrow> reachable (interval_fires e t s)"

section \<open>Values for the examples\<close>

text \<open>A serializer in the manner of \<^verbatim>\<open>JSON.stringify\<close> for the examples: strings are quoted
  with the quote and the backslash escaped, numbers are shown by their integer part.\<close>

fun separated :: "string \<Rightarrow> string list \<Rightarrow> string" where
  "separated sep [] = []"
| "separated sep [x] = x"
| "separated sep (x # y # ys) = x @ sep @ separated sep (y # ys)"

definition quoted :: "string \<Rightarrow> string" where
  "quoted s =
     [CHR 0x22]
     @ concat (map (\<lambda>c. if c = CHR 0x22 \<or> c = CHR 0x5C then [CHR 0x5C, c] else [c]) s)
     @ [CHR 0x22]"

fun decimal :: "nat \<Rightarrow> string" where
  "decimal n =
     (if n < 10 then [char_of (48 + n)]
      else decimal (n div 10) @ [char_of (48 + n mod 10)])"

declare decimal.simps [simp del]

primrec json_text :: "json \<Rightarrow> string" where
  "json_text JNull = ''null''"
| "json_text (JBool b) = (if b then ''true'' else ''false'')"
| "json_text (JNum x) = (if x < 0 then ''-'' else []) @ decimal (nat \<lfloor>\<bar>x\<bar>\<rfloor>)"
| "json_text (JStr s) = quoted s"
| "json_text (JArr xs) = ''['' @ separated '','' (map json_text xs) @ '']''"
| "json_text (JObj kvs) =
     ''{'' @ separated '',''
              (map (\<lambda>(k, t). quoted k @ '':'' @ t) (map (map_prod id json_text) kvs)) @ ''}''"

text \<open>A backend that answers every fetch with the same error code; the clock advances by a
  second per reading; every random draw is one half, so the jitter is exactly one.\<close>

definition sample_response :: "string \<Rightarrow> ApiResponse" where
  "sample_response c = error_response c ''upstream failure'' None"

definition sample_env :: "string \<Rightarrow> env" where
  "sample_env c =
     \<lparr> stringify = json_text,
       network = (\<lambda>n. Settles (sample_response c)),
       clock = (\<lambda>n. 1000 * int n),
       random = (\<lambda>n. 1 / 2) \<rparr>"

definition sample_options :: "real option \<Rightarrow> ApiServiceOptions" where
  "sample_options m =
     \<lparr> credentials = \<lparr> cred_apiKey = ''key'', cred_environment = development \<rparr>,
       opt_autoRetry = None, opt_maxRetries = m, opt_cacheTime = None \<rparr>"

definition sample_config :: ApiRequestConfig where
  "sample_config =
     \<lparr> endpoint = VerificationStatus, method = GET,
       params = Some [(''wallet'', JStr ''11111111111111111111111111111111'')],
       body = None, headers = None \<rparr>"

text \<open>Request configs for the examples of the request key.\<close>

definition whitelist_config :: "json option \<Rightarrow> ApiRequestConfig" where
  "whitelist_config b =
     \<lparr> endpoint = WhitelistCheck, method = POST, params = None, body = b, headers = None \<rparr>"

definition metrics_config :: "(string \<times> json) list \<Rightarrow> ApiRequestConfig" where
  "metrics_config p =
     \<lparr> endpoint = MetricsKol, method = GET, params = Some p, body = None, headers = None \<rparr>"

definition sample_transfer :: "real \<Rightarrow> TransactionParams" where
  "sample_transfer a =
     \<lparr> tx_from = ''11111111111111111111111111111111'',
       tx_to = ''22222222222222222222222222222222'',
       amount = a, memo = None,
       tx_object = [(''from'', JStr ''11111111111111111111111111111111''),
                    (''to'', JStr ''22222222222222222222222222222222''),
                    (''amount'', JNum a)] \<rparr>"

definition sample_sdk_config :: SdkConfig where
  "sample_sdk_config =
     \<lparr> apiCredentials = \<lparr> cred_apiKey = ''key'', cred_environment = development \<rparr>,
       cfg_autoRetry = None, cfg_maxRetries = None, cfg_cacheTime = None \<rparr>"

section \<open>Auxiliary facts\<close>

text \<open>What each step leaves alone.\<close>

lemma fields_cancel_duplicate [simp]:
  "maxRetries (cancel_duplicate k s) = maxRetries s"
  "autoRetry (cancel_duplicate k s) = autoRetry s"
  "cacheTime (cancel_duplicate k s) = cacheTime s"
  "cache (cancel_duplicate k s) = cache s"
  "fetches (cancel_duplicate k s) = fetches s"
  "sleeps (cancel_duplicate k s) = sleeps s"
  "clock_reads (cancel_duplicate k s) = clock_reads s"
  "random_draws (cancel_duplicate k s) = random_draws s"
  "intervals (cancel_duplicate k s) = intervals s"
  by (simp_all add: cancel_duplicate_def split: option.split)

lemma fields_register_pending [simp]:
  "maxRetries (register_pending k s) = maxRetries s"
  "autoRetry (register_pending k s) = autoRetry s"
  "cacheTime (register_pending k s) = cacheTime s"
  "cache (register_pending k s) = cache s"
  "fetches (register_pending k s) = Suc (fetches s)"
  "sleeps (register_pending k s) = sleeps s"
  "clock_reads (register_pending k s) = clock_reads s"
  "random_draws (register_pending k s) = random_draws s"
  "intervals (register_pending k s) = intervals s"
  "aborted (register_pending k s) = aborted s"
  by (simp_all add: register_pending_def)

lemma fields_remove_pending [simp]:
  "maxRetries (remove_pending k s) = maxRetries s"
  "autoRetry (remove_pending k s) = autoRetry s"
  "cacheTime (remove_pending k s) = cacheTime s"
  "cache (remove_pending k s) = cache s"
  "fetches (remove_pending k s) = fetches s"
  "sleeps (remove_pending k s) = sleeps s"
  "clock_reads (remove_pending k s) = clock_reads s"
  "random_draws (remove_pending k s) = random_draws s"
  "intervals (remove_pending k s) = intervals s"
  "aborted (remove_pending k s) = aborted s"
  by (simp_all add: remove_pending_def)

lemma fields_backoff_sleep [simp]:
  "maxRetries (backoff_sleep e n s) = maxRetries s"
  "autoRetry (backoff_sleep e n s) = autoRetry s"
  "cacheTime (backoff_sleep e n s) = cacheTime s"
  "cache (backoff_sleep e n s) = cache s"
  "fetches (backoff_sleep e n s) = fetches s"
  "sleeps (backoff_sleep e n s) = sleeps s @ [calculateBackoff (random e (random_draws s)) n None]"
  "clock_reads (backoff_sleep e n s) = clock_reads s"
  "random_draws (backoff_sleep e n s) = Suc (random_draws s)"
  "intervals (backoff_sleep e n s) = intervals s"
  "aborted (backoff_sleep e n s) = aborted s"
  "pendingRequests (backoff_sleep e n s) = pendingRequests s"
  by (simp_all add: backoff_sleep_def)

lemma fields_cache_lookup [simp]:
  "maxRetries (snd (cache_lookup e k s)) = maxRetries s"
  "autoRetry (snd (cache_lookup e k s)) = autoRetry s"
  "cacheTime (snd (cache_lookup e k s)) = cacheTime s"
  "fetches (snd (cache_lookup e k s)) = fetches s"
  "sleeps (snd (cache_lookup e k s)) = sleeps s"
  "random_draws (snd (cache_lookup e k s)) = random_draws s"
  "intervals (snd (cache_lookup e k s)) = intervals s"
  "aborted (snd (cache_lookup e k s)) = aborted s"
  "pendingRequests (snd (cache_lookup e k s)) = pendingRequests s"
  by (simp_all add: cache_lookup_def split: prod.split)

lemma fields_cache_and_return [simp]:
  "fst (cache_and_return e k u r s) = r"
  "maxRetries (snd (cache_and_return e k u r s)) = maxRetries s"
  "autoRetry (snd (cache_and_return e k u r s)) = autoRetry s"
  "cacheTime (snd (cache_and_return e k u r s)) = cacheTime s"
  "fetches (snd (cache_and_return e k u r s)) = fetches s"
  "sleeps (snd (cache_and_return e k u r s)) = sleeps s"
  "random_draws (snd (cache_and_return e k u r s)) = random_draws s"
  "intervals (snd (cache_and_return e k u r s)) = intervals s"
  "aborted (snd (cache_and_return e k u r s)) = aborted s"
  "pendingRequests (snd (cache_and_return e k u r s)) = pendingRequests s"
  by (simp_all add: cache_and_return_def)

lemma fields_after_lookup [simp]:
  "maxRetries (snd (after_lookup e c opts s)) = maxRetries s"
  "autoRetry (snd (after_lookup e c opts s)) = autoRetry s"
  "cacheTime (snd (after_lookup e c opts s)) = cacheTime s"
  "fetches (snd (after_lookup e c opts s)) = fetches s"
  "sleeps (snd (after_lookup e c opts s)) = sleeps s"
  "random_draws (snd (after_lookup e c opts s)) = random_draws s"
  "intervals (snd (after_lookup e c opts s)) = intervals s"
  "aborted (snd (after_lookup e c opts s)) = aborted s"
  "pendingRequests (snd (after_lookup e c opts s)) = pendingRequests s"
  by (simp_all add: after_lookup_def)

lemma fields_after_settle [simp]:
  "maxRetries (after_settle e c opts s) = maxRetries s"
  "autoRetry (after_settle e c opts s) = autoRetry s"
  "cacheTime (after_settle e c opts s) = cacheTime s"
  "fetches (after_settle e c opts s) = Suc (fetches s)"
  "sleeps (after_settle e c opts s) = sleeps s"
  "random_draws (after_settle e c opts s) = random_draws s"
  "intervals (after_settle e c opts s) = intervals s"
  by (simp_all add: after_settle_def Let_def)

lemma executeRequest_unfold:
  "executeRequest e config options s =
     (case fst (after_lookup e config options s) of
        Some cachedData \<Rightarrow> (cachedData, snd (after_lookup e config options s))
      | None \<Rightarrow>
          (case network e (issued_fetch e config options s) of
             PrepareThrows err \<Rightarrow>
               (request_failed err,
                remove_pending (createRequestId (stringify e) config)
                  (cancel_duplicate (createRequestId (stringify e) config)
                     (snd (after_lookup e config options s))))
           | AwaitThrows err \<Rightarrow> (request_failed err, after_settle e config options s)
           | Settles response \<Rightarrow>
               if \<not> success response \<and> autoRetry s \<and> real (retryCount options) < maxRetries s
                  \<and> shouldRetry response
               then executeRequest e config
                      \<lparr> useCache = useCache options, bypassCache = True,
                        retryCount = retryCount options + 1 \<rparr>
                      (backoff_sleep e (retryCount options) (after_settle e config options s))
               else cache_and_return e (createRequestId (stringify e) config) (useCache options)
                      response (after_settle e config options s)))"
  by (subst executeRequest.simps)
     (simp add: executeRequest_begin_def executeRequest_settled_def Let_def after_lookup_def
        issued_fetch_def after_settle_def
        split: option.split fetch_outcome.split prod.split)

lemma begin_awaiting:
  assumes "fst (after_lookup e config options s) = None"
    and "network e (issued_fetch e config options s) = Settles response"
  shows "executeRequest_begin e config options s =
     AwaitingFetch (createRequestId (stringify e) config) (issued_fetch e config options s)
       (register_pending (createRequestId (stringify e) config)
          (cancel_duplicate (createRequestId (stringify e) config)
             (snd (after_lookup e config options s))))"
  using assms
  by (simp add: executeRequest_begin_def Let_def after_lookup_def issued_fetch_def)

lemma settled_retrying:
  assumes "\<not> success response" and "autoRetry s" and "real (retryCount options) < maxRetries s"
    and "shouldRetry response"
  shows "executeRequest_settled e options (createRequestId (stringify e) config) (Settles response)
       (register_pending (createRequestId (stringify e) config)
          (cancel_duplicate (createRequestId (stringify e) config)
             (snd (after_lookup e config options s))))
     = AwaitingBackoff
         \<lparr> useCache = useCache options, bypassCache = True,
           retryCount = retryCount options + 1 \<rparr>
         (backoff_sleep e (retryCount options) (after_settle e config options s))"
  using assms
  by (simp add: executeRequest_settled_def Let_def after_settle_def)

lemma executeRequest_induct_phases [case_names step]:
  assumes "\<And>e config options s.
     (\<And>response. fst (after_lookup e config options s) = None \<Longrightarrow>
        network e (issued_fetch e config options s) = Settles response \<Longrightarrow>
        \<not> success response \<Longrightarrow> autoRetry s \<Longrightarrow> real (retryCount options) < maxRetries s \<Longrightarrow>
        shouldRetry response \<Longrightarrow>
        P e config \<lparr> useCache = useCache options, bypassCache = True,
                     retryCount = retryCount options + 1 \<rparr>
          (backoff_sleep e (retryCount options) (after_settle e config options s)))
     \<Longrightarrow> P e config options s"
  shows "P e config options s"
proof (induction e config options s rule: executeRequest.induct)
  case (1 e config options s)
  show ?case
  proof (rule assms)
    fix response
    assume a: "fst (after_lookup e config options s) = None"
      "network e (issued_fetch e config options s) = Settles response"
      and b: "\<not> success response" "autoRetry s" "real (retryCount options) < maxRetries s"
      "shouldRetry response"
    have "executeRequest_settled e options (createRequestId (stringify e) config)
        (network e (issued_fetch e config options s))
        (register_pending (createRequestId (stringify e) config)
          (cancel_duplicate (createRequestId (stringify e) config)
             (snd (after_lookup e config options s))))
      = AwaitingBackoff
         \<lparr> useCache = useCache options, bypassCache = True,
           retryCount = retryCount options + 1 \<rparr>
         (backoff_sleep e (retryCount options) (after_settle e config options s))"
      using settled_retrying [OF b] a(2) by simp
    from "1.IH" [OF begin_awaiting [OF a] this]
    show "P e config \<lparr> useCache = useCache options, bypassCache = True,
                     retryCount = retryCount options + 1 \<rparr>
          (backoff_sleep e (retryCount options) (after_settle e config options s))" .
  qed
qed

lemma retry_budget:
  "real n < m \<Longrightarrow> nat \<lceil>m - real n\<rceil> = Suc (nat \<lceil>m - (1 + real n)\<rceil>)"
  by linarith

lemma retries_bounded:
  "length (sleeps (snd (executeRequest e config options s)))
     \<le> length (sleeps s) + nat \<lceil>maxRetries s - real (retryCount options)\<rceil>"
proof (induction e config options s rule: executeRequest_induct_phases)
  case (step e config options s)
  show ?case
    using step
    by (subst executeRequest_unfold)
       (auto split: option.split fetch_outcome.split
          simp: after_lookup_def remove_pending_def retry_budget)
qed

lemma fetches_bounded:
  "fetches (snd (executeRequest e config options s))
     \<le> fetches s + 1 + nat \<lceil>maxRetries s - real (retryCount options)\<rceil>"
proof (induction e config options s rule: executeRequest_induct_phases)
  case (step e config options s)
  show ?case
    using step
    by (subst executeRequest_unfold)
       (auto split: option.split fetch_outcome.split
          simp: after_lookup_def remove_pending_def retry_budget)
qed


lemma pending_cancel_duplicate [simp]:
  "pendingRequests (cancel_duplicate k s) = AList.delete k (pendingRequests s)"
  by (simp add: cancel_duplicate_def map_of_eq_None_iff AList.delete_id split: option.split)

lemma pending_register_pending [simp]:
  "pendingRequests (register_pending k s) = AList.update k (fetches s) (pendingRequests s)"
  by (simp add: register_pending_def)

lemma pending_remove_pending [simp]:
  "pendingRequests (remove_pending k s) = AList.delete k (pendingRequests s)"
  by (simp add: remove_pending_def)

lemma pending_after_settle [simp]:
  "pendingRequests (after_settle e config options s)
     = AList.delete (createRequestId (stringify e) config) (pendingRequests s)"
  by (simp add: after_settle_def Let_def AList.delete_update_same AList.delete_idem)

lemma no_cache_use:
  "\<not> useCache options \<Longrightarrow>
     cache (snd (executeRequest e config options s)) = cache s
     \<and> clock_reads (snd (executeRequest e config options s)) = clock_reads s"
proof (induction e config options s rule: executeRequest_induct_phases)
  case (step e config options s)
  then show ?case
    by (subst (1 2) executeRequest_unfold)
       (auto split: option.split fetch_outcome.split
          simp: after_lookup_def after_settle_def cache_and_return_def Let_def)
qed

lemma cache_update_commutes:
  "cancel_duplicate k (s\<lparr>cache := c\<rparr>) = (cancel_duplicate k s)\<lparr>cache := c\<rparr>"
  "register_pending k (s\<lparr>cache := c\<rparr>) = (register_pending k s)\<lparr>cache := c\<rparr>"
  "remove_pending k (s\<lparr>cache := c\<rparr>) = (remove_pending k s)\<lparr>cache := c\<rparr>"
  "backoff_sleep e n (s\<lparr>cache := c\<rparr>) = (backoff_sleep e n s)\<lparr>cache := c\<rparr>"
  by (simp_all add: cancel_duplicate_def register_pending_def remove_pending_def
        backoff_sleep_def split: option.split)

lemma result_ignores_cache:
  "\<not> useCache options \<Longrightarrow>
     executeRequest e config options (s\<lparr>cache := c\<rparr>)
       = (fst (executeRequest e config options s),
          (snd (executeRequest e config options s))\<lparr>cache := c\<rparr>)"
proof (induction e config options s rule: executeRequest_induct_phases)
  case (step e config options s)
  have lk: "after_lookup e config options s' = (None, s')" for s'
    using step.prems by (simp add: after_lookup_def)
  have st: "after_settle e config options (s\<lparr>cache := c\<rparr>)
             = (after_settle e config options s)\<lparr>cache := c\<rparr>"
    by (simp add: after_settle_def Let_def lk cache_update_commutes)
  have fe: "issued_fetch e config options (s\<lparr>cache := c\<rparr>) = issued_fetch e config options s"
    by (simp add: issued_fetch_def lk)
  show ?case
    using step
    by (subst (1 2 3) executeRequest_unfold)
       (auto split: fetch_outcome.split
          simp: lk st fe cache_update_commutes cache_and_return_def)
qed




lemma valid_samples:
  "isValidSolanaAddress ''11111111111111111111111111111111''"
  "isValidSolanaAddress ''22222222222222222222222222222222''"
  by (simp_all add: isValidSolanaAddress_def base58_char_def char_in_range_def)

lemma sleeps_grow:
  "length (sleeps s) \<le> length (sleeps (snd (executeRequest e config options s)))"
proof (induction e config options s rule: executeRequest_induct_phases)
  case (step e config options s)
  show ?case
    using step
    by (subst executeRequest_unfold)
       (auto split: option.split fetch_outcome.split simp: after_lookup_def remove_pending_def)
qed

lemma fresh_service_first_fetch:
  "fst (after_lookup e config default_options (new_KolcoinApiService opts)) = None"
  "issued_fetch e config default_options (new_KolcoinApiService opts) = 0"
  by (simp_all add: after_lookup_def issued_fetch_def default_options_def cache_lookup_def
        cache_get_def new_KolcoinApiService_def cancel_duplicate_def)

lemma default_options_fields:
  "useCache default_options" "\<not> bypassCache default_options" "retryCount default_options = 0"
  by (simp_all add: default_options_def)


lemma intervals_cancelAllRequests [simp]:
  "intervals (cancelAllRequests s) = intervals s"
  by (simp add: cancelAllRequests_def)

lemma intervals_interval_fires [simp]:
  "intervals (interval_fires e t s) = intervals s"
  by (simp add: interval_fires_def run_callback_def split: timer_callback.split)

lemma reachable_intervals: "reachable s \<Longrightarrow> intervals s = [(60000, ClearExpiredCache)]"
  by (induction rule: reachable.induct) (simp_all add: new_KolcoinApiService_def)

lemma retry_step:
  assumes "fst (after_lookup e config options s) = None"
    and "network e (issued_fetch e config options s) = Settles response"
    and "\<not> success response"
  shows "executeRequest e config options s =
      (if autoRetry s \<and> real (retryCount options) < maxRetries s \<and> shouldRetry response
       then executeRequest e config
              \<lparr> useCache = useCache options, bypassCache = True,
                retryCount = retryCount options + 1 \<rparr>
              (backoff_sleep e (retryCount options) (after_settle e config options s))
       else (response, after_settle e config options s))"
  using assms by (subst executeRequest_unfold) (simp add: cache_and_return_def)

lemma bypass_misses:
  "fst (after_lookup e config \<lparr> useCache = u, bypassCache = True, retryCount = n \<rparr> s) = None"
  by (simp add: after_lookup_def)

lemma persistent_failure_retries:
  "(\<And>n. network e n = Settles response) \<Longrightarrow> \<not> success response \<Longrightarrow>
   shouldRetry response \<Longrightarrow> autoRetry s \<Longrightarrow>
   fst (after_lookup e config options s) = None \<Longrightarrow>
     length (sleeps (snd (executeRequest e config options s)))
       = length (sleeps s) + nat \<lceil>maxRetries s - real (retryCount options)\<rceil>"
proof (induction e config options s rule: executeRequest_induct_phases)
  case (step e config options s)
  note net = step.prems(1) [of "issued_fetch e config options s"]
  note err = step.prems(2) and tr = step.prems(3) and on = step.prems(4)
    and miss = step.prems(5)
  show ?case
  proof (cases "real (retryCount options) < maxRetries s")
    case True
    have "length (sleeps (snd (executeRequest e config
              \<lparr> useCache = useCache options, bypassCache = True,
                retryCount = retryCount options + 1 \<rparr>
              (backoff_sleep e (retryCount options) (after_settle e config options s)))))
        = length (sleeps (backoff_sleep e (retryCount options) (after_settle e config options s)))
          + nat \<lceil>maxRetries s - real (retryCount options + 1)\<rceil>"
      using step.IH [OF miss net err on True tr step.prems(1) err tr] on
      by (simp add: bypass_misses)
    then show ?thesis
      using True on tr
      by (simp add: retry_step [OF miss net err] retry_budget)
  next
    case False
    then have "nat \<lceil>maxRetries s - real (retryCount options)\<rceil> = 0"
      by simp
    then show ?thesis
      using False by (simp add: retry_step [OF miss net err])
  qed
qed

lemma truthy_iff:
  "truthy v \<longleftrightarrow> \<not> (v = JNull \<or> v = JBool False \<or> v = JNum 0 \<or> v = JStr [])"
  by (cases v) auto












section \<open>Retry (claim C1)\<close>

text \<open>
  Claim C1 ends with: at most \<open>maxRetries\<close> retries ever occur for one logical request.
  \<open>maxRetries\<close> is whatever number the caller passed, and the test is
  \<open>retryCount < maxRetries\<close>: with \<open>maxRetries = 2.5\<close> and a backend that keeps answering
  \<^verbatim>\<open>HTTP_503\<close>, the attempts 0, 1 and 2 are each followed by a retry, three retries in all.
\<close>

theorem fractional_maxRetries_three_retries:
  "maxRetries (new_KolcoinApiService (sample_options (Some (5 / 2)))) = 5 / 2
   \<and> length (sleeps (snd (executeRequest (sample_env ''HTTP_503'') sample_config default_options
        (new_KolcoinApiService (sample_options (Some (5 / 2))))))) = 3
   \<and> \<not> real (length (sleeps (snd (executeRequest (sample_env ''HTTP_503'') sample_config
        default_options (new_KolcoinApiService (sample_options (Some (5 / 2))))))))
        \<le> maxRetries (new_KolcoinApiService (sample_options (Some (5 / 2))))"
proof -
  define s0 where "s0 = new_KolcoinApiService (sample_options (Some (5 / 2)))"
  have cfg: "autoRetry s0" "maxRetries s0 = 5 / 2" "sleeps s0 = []"
    by (simp_all add: s0_def new_KolcoinApiService_def sample_options_def number_or_def)
  have net: "network (sample_env ''HTTP_503'') n = Settles (sample_response ''HTTP_503'')" for n
    by (simp add: sample_env_def)
  have sr: "shouldRetry (sample_response ''HTTP_503'')" "\<not> success (sample_response ''HTTP_503'')"
    by (simp_all add: shouldRetry_def sample_response_def error_response_def)
  have miss: "fst (after_lookup (sample_env ''HTTP_503'') sample_config default_options s0) = None"
    unfolding s0_def by (rule fresh_service_first_fetch)
  have "\<lceil>5 / 2 :: real\<rceil> = 3"
    by linarith
  then have "length (sleeps (snd (executeRequest (sample_env ''HTTP_503'') sample_config
      default_options s0))) = 3"
    using persistent_failure_retries [OF net sr(2) sr(1) cfg(1) miss]
    by (simp add: cfg default_options_fields)
  then show ?thesis
    unfolding s0_def [symmetric] by (simp add: cfg)
qed

text \<open>
  Claim C1, as amended. When the fetch of a call to \<open>executeRequest\<close> settles with an error
  envelope, the call continues as a further call with \<open>retryCount + 1\<close> and
  \<open>bypassCache = True\<close>, after a backoff delay computed from \<open>retryCount\<close>, exactly when
  \<open>autoRetry\<close> holds, \<open>retryCount\<close> is below \<open>maxRetries\<close> and the error code starts with
  \<^verbatim>\<open>HTTP_5\<close> or is \<^verbatim>\<open>NETWORK_ERROR\<close>. In every other case the envelope is returned as it is,
  after the one fetch. A call sleeps, and so retries, at most \<open>maxRetries - retryCount\<close>
  rounded up to a whole number of times (never, when that is not positive) and issues at
  most one fetch more than that: a logical request, which starts at \<open>retryCount = 0\<close>, is
  retried at most \<open>maxRetries\<close> rounded up times, and exactly that often when every fetch
  fails with the same transient error and \<open>autoRetry\<close> holds.
\<close>

theorem retry_decision:
  "(fst (after_lookup e config options s) = None
      \<and> network e (issued_fetch e config options s) = Settles response
      \<and> \<not> success response \<longrightarrow>
    executeRequest e config options s =
      (if autoRetry s \<and> real (retryCount options) < maxRetries s
          \<and> (\<exists>err. error response = Some err
                \<and> (prefix ''HTTP_5'' (code err) \<or> code err = ''NETWORK_ERROR''))
       then executeRequest e config
              \<lparr> useCache = useCache options, bypassCache = True,
                retryCount = retryCount options + 1 \<rparr>
              (backoff_sleep e (retryCount options) (after_settle e config options s))
       else (response, after_settle e config options s)))
   \<and> sleeps (backoff_sleep e (retryCount options) (after_settle e config options s))
       = sleeps s @ [calculateBackoff (random e (random_draws s)) (retryCount options) None]
   \<and> fetches (after_settle e config options s) = fetches s + 1
   \<and> length (sleeps (snd (executeRequest e config options s)))
       \<le> length (sleeps s) + nat \<lceil>maxRetries s - real (retryCount options)\<rceil>
   \<and> fetches (snd (executeRequest e config options s))
       \<le> fetches s + 1 + nat \<lceil>maxRetries s - real (retryCount options)\<rceil>
   \<and> ((\<forall>n. network e n = Settles response) \<and> \<not> success response
        \<and> (\<exists>err. error response = Some err
              \<and> (prefix ''HTTP_5'' (code err) \<or> code err = ''NETWORK_ERROR''))
        \<and> autoRetry s \<and> fst (after_lookup e config options s) = None \<longrightarrow>
       length (sleeps (snd (executeRequest e config options s)))
         = length (sleeps s) + nat \<lceil>maxRetries s - real (retryCount options)\<rceil>)"
proof -
  have sr: "shouldRetry response \<longleftrightarrow>
      (\<exists>err. error response = Some err
          \<and> (prefix ''HTTP_5'' (code err) \<or> code err = ''NETWORK_ERROR''))"
    by (simp add: shouldRetry_def split: option.split)
  have "random_draws (after_settle e config options s) = random_draws s" by simp
  then show ?thesis
    using retries_bounded [of e config options s] fetches_bounded [of e config options s]
      retry_step [of e config options s response]
      persistent_failure_retries [of e response s config options]
    by (simp add: sr)
qed

theorem retry_decision_witness:
  "fst (executeRequest (sample_env ''HTTP_503'') sample_config default_options
          (new_KolcoinApiService (sample_options (Some 2)))) = sample_response ''HTTP_503''
   \<and> fetches (snd (executeRequest (sample_env ''HTTP_503'') sample_config default_options
          (new_KolcoinApiService (sample_options (Some 2))))) = 3
   \<and> sleeps (snd (executeRequest (sample_env ''HTTP_503'') sample_config default_options
          (new_KolcoinApiService (sample_options (Some 2))))) = [300, 600]
   \<and> fst (executeRequest (sample_env ''HTTP_404'') sample_config default_options
          (new_KolcoinApiService (sample_options (Some 2)))) = sample_response ''HTTP_404''
   \<and> fetches (snd (executeRequest (sample_env ''HTTP_404'') sample_config default_options
          (new_KolcoinApiService (sample_options (Some 2))))) = 1
   \<and> sleeps (snd (executeRequest (sample_env ''REQUEST_CANCELLED'') sample_config default_options
          (new_KolcoinApiService (sample_options (Some 2))))) = []"
proof -
  define e where "e = sample_env ''HTTP_503''"
  define r where "r = sample_response ''HTTP_503''"
  define s0 where "s0 = new_KolcoinApiService (sample_options (Some 2))"
  define o1 where "o1 = \<lparr> useCache = True, bypassCache = True, retryCount = Suc 0 \<rparr>"
  define o2 where "o2 = \<lparr> useCache = True, bypassCache = True, retryCount = Suc (Suc 0) \<rparr>"
  define s1 where "s1 = backoff_sleep e 0 (after_settle e sample_config default_options s0)"
  define s2 where "s2 = backoff_sleep e (Suc 0) (after_settle e sample_config o1 s1)"
  have net: "network (sample_env c) n = Settles (sample_response c)" for c n
    by (simp add: sample_env_def)
  have rnd: "random (sample_env c) n = 1 / 2" for c n
    by (simp add: sample_env_def)
  have resp: "\<not> success (sample_response c)" "error (sample_response c)
      = Some \<lparr> code = c, message = ''upstream failure'', details = None \<rparr>" for c
    by (simp_all add: sample_response_def error_response_def)
  have look0: "fst (after_lookup (sample_env c) sample_config default_options s0) = None" for c
    by (simp add: after_lookup_def default_options_def cache_lookup_def cache_get_def s0_def
          new_KolcoinApiService_def)
  have cfg0: "autoRetry s0" "maxRetries s0 = 2" "fetches s0 = 0" "sleeps s0 = []"
    by (simp_all add: s0_def new_KolcoinApiService_def sample_options_def number_or_def)
  have step0: "executeRequest e sample_config default_options s0 = executeRequest e sample_config o1 s1"
    using retry_decision [of e sample_config default_options s0 r] look0 [of "''HTTP_503''"]
    by (simp add: e_def r_def net resp cfg0 o1_def s1_def default_options_def)
  have step1: "executeRequest e sample_config o1 s1 = executeRequest e sample_config o2 s2"
    using retry_decision [of e sample_config o1 s1 r]
    by (simp add: e_def r_def net resp cfg0 o1_def o2_def s1_def s2_def after_lookup_def)
  have step2: "executeRequest e sample_config o2 s2 = (r, after_settle e sample_config o2 s2)"
    using retry_decision [of e sample_config o2 s2 r]
    by (simp add: e_def r_def net resp cfg0 o1_def o2_def s1_def s2_def after_lookup_def)
  have sl: "sleeps s2 = [300, 600]" "fetches s2 = 2"
    by (simp_all add: s2_def s1_def o1_def cfg0 e_def rnd calculateBackoff_def Let_def)
  have r404: "executeRequest (sample_env ''HTTP_404'') sample_config default_options s0
      = (sample_response ''HTTP_404'',
         after_settle (sample_env ''HTTP_404'') sample_config default_options s0)"
    using retry_decision [of "sample_env ''HTTP_404''" sample_config default_options s0
        "sample_response ''HTTP_404''"] look0 [of "''HTTP_404''"]
    by (simp add: net resp)
  have rcan: "executeRequest (sample_env ''REQUEST_CANCELLED'') sample_config default_options s0
      = (sample_response ''REQUEST_CANCELLED'',
         after_settle (sample_env ''REQUEST_CANCELLED'') sample_config default_options s0)"
    using retry_decision [of "sample_env ''REQUEST_CANCELLED''" sample_config default_options s0
        "sample_response ''REQUEST_CANCELLED''"] look0 [of "''REQUEST_CANCELLED''"]
    by (simp add: net resp)
  show ?thesis
    unfolding s0_def [symmetric] e_def [symmetric] r_def [symmetric]
    by (simp add: step0 step1 step2 sl r404 rcan cfg0)
qed

section \<open>Request key (claim C2)\<close>

text \<open>
  Claim C2 says that the key is \<^verbatim>\<open>method:endpoint:JSON(params):JSON(body)\<close> and that configs
  with params and body equal as values have equal keys. A falsy body is replaced by the
  empty object before it is serialized, so the body \<^verbatim>\<open>false\<close> gives a key that ends in
  \<^verbatim>\<open>{}\<close>, not in \<^verbatim>\<open>false\<close>, the same key as the body \<^verbatim>\<open>""\<close>. And two params objects with the
  same keys and values in another order are serialized differently, so their keys differ.
\<close>

theorem falsy_body_and_key_order:
  \<open>createRequestId json_text (whitelist_config (Some (JBool False)))
     = ''POST:/whitelist/check:{}:{}''
   \<and> method_string POST @ '':'' @ endpoint_string WhitelistCheck @ '':'' @ json_text (JObj [])
       @ '':'' @ json_text (JBool False) = ''POST:/whitelist/check:{}:false''
   \<and> createRequestId json_text (whitelist_config (Some (JBool False)))
     = createRequestId json_text (whitelist_config (Some (JStr [])))
   \<and> map_of [(''wallet'', JStr ''w''), (''tier'', JStr ''t'')]
     = map_of [(''tier'', JStr ''t''), (''wallet'', JStr ''w'')]
   \<and> createRequestId json_text (metrics_config [(''wallet'', JStr ''w''), (''tier'', JStr ''t'')])
     = ''GET:/metrics/kol:{"wallet":"w","tier":"t"}:{}''
   \<and> createRequestId json_text (metrics_config [(''tier'', JStr ''t''), (''wallet'', JStr ''w'')])
     = ''GET:/metrics/kol:{"tier":"t","wallet":"w"}:{}''\<close>
  by (auto simp: createRequestId_def whitelist_config_def metrics_config_def params_or_empty_def
        body_or_empty_def quoted_def fun_eq_iff)

text \<open>
  Claim C2, as amended. The request key is the method, the endpoint, the serialized params
  and the serialized body, joined by colons, where an absent params and an absent or falsy
  body (\<^verbatim>\<open>null\<close>, \<^verbatim>\<open>false\<close>, \<^verbatim>\<open>0\<close>, the empty string) are serialized as the empty object.
  It is a function of these four alone, whatever serializer the runtime provides: two
  configs with equal method and endpoint and with params and body equal as values, the
  keys of their objects in the same order, have the same key, whatever their headers.
\<close>

theorem createRequestId_content_only:
  "createRequestId js D =
      method_string (method D) @ '':'' @ endpoint_string (endpoint D) @ '':'' @
      js (case params D of None \<Rightarrow> JObj [] | Some kvs \<Rightarrow> JObj kvs) @ '':'' @
      js (case body D of
            None \<Rightarrow> JObj []
          | Some v \<Rightarrow>
              if v = JNull \<or> v = JBool False \<or> v = JNum 0 \<or> v = JStr [] then JObj [] else v)
   \<and> (method D1 = method D2 \<and> endpoint D1 = endpoint D2 \<and> params D1 = params D2
        \<and> body D1 = body D2 \<longrightarrow> createRequestId js D1 = createRequestId js D2)"
  by (auto simp: createRequestId_def params_or_empty_def body_or_empty_def truthy_iff
        split: option.split)

theorem createRequestId_content_only_witness:
  \<open>createRequestId json_text
       (whitelist_config (Some (JObj [(''walletAddress'', JStr ''w'')])))
     = ''POST:/whitelist/check:{}:{"walletAddress":"w"}''
   \<and> createRequestId json_text
       ((whitelist_config (Some (JObj [(''walletAddress'', JStr ''w'')])))
          \<lparr>headers := Some [(''X-Trace'', ''1'')]\<rparr>)
     = ''POST:/whitelist/check:{}:{"walletAddress":"w"}''
   \<and> createRequestId json_text (whitelist_config (Some (JObj [(''walletAddress'', JStr ''v'')])))
     \<noteq> createRequestId json_text (whitelist_config (Some (JObj [(''walletAddress'', JStr ''w'')])))\<close>
proof -
  define D where "D = whitelist_config (Some (JObj [(''walletAddress'', JStr ''w'')]))"
  define D' where "D' = D\<lparr>headers := Some [(''X-Trace'', ''1'')]\<rparr>"
  define E where "E = whitelist_config (Some (JObj [(''walletAddress'', JStr ''v'')]))"
  note key = createRequestId_content_only [of json_text D D D']
  have same: "method D = method D' \<and> endpoint D = endpoint D' \<and> params D = params D'
      \<and> body D = body D'"
    by (simp add: D'_def)
  have kD: \<open>createRequestId json_text D = ''POST:/whitelist/check:{}:{"walletAddress":"w"}''\<close>
    using key by (simp add: D_def whitelist_config_def quoted_def)
  have kD': "createRequestId json_text D' = createRequestId json_text D"
    by (rule sym) (rule mp [OF conjunct2 [OF key] same])
  have kE: \<open>createRequestId json_text E = ''POST:/whitelist/check:{}:{"walletAddress":"v"}''\<close>
    using createRequestId_content_only [of json_text E]
    by (simp add: E_def whitelist_config_def quoted_def)
  show ?thesis
    unfolding D_def [symmetric] D'_def [symmetric] E_def [symmetric]
    by (simp add: kD kD' kE)
qed

section \<open>Cache expiry (claim C3)\<close>

text \<open>
  Claim C3. \<open>cache_set key v ttl\<close> at time \<open>t0\<close> stores \<open>v\<close> under \<open>key\<close> with expiry \<open>t0 + ttl\<close>,
  replacing what was stored under \<open>key\<close> and nothing else. A later \<open>cache_get key\<close> at time
  \<open>now\<close> returns \<open>v\<close> and keeps the cache when \<open>now \<le> t0 + ttl\<close>; otherwise it returns nothing and
  removes the entry. One millisecond before the expiry the value is returned, one millisecond
  after it the entry is gone. On any cache, \<open>cache_get\<close> returns a value only from an entry
  that has not expired.
\<close>

theorem cache_set_then_get:
  "cache_set key v ttl t0 c key = Some \<lparr>entry_data = v, expiry = t0 + ttl\<rparr>
   \<and> (cache_set key v ttl t0 c)(key := None) = c(key := None)
   \<and> cache_get key now (cache_set key v ttl t0 c) =
        (if now \<le> t0 + ttl then (Some v, cache_set key v ttl t0 c)
         else (None, c(key := None)))
   \<and> cache_get key (t0 + ttl - 1) (cache_set key v ttl t0 c) = (Some v, cache_set key v ttl t0 c)
   \<and> cache_get key (t0 + ttl + 1) (cache_set key v ttl t0 c) = (None, c(key := None))
   \<and> (fst (cache_get key now c) = Some v \<longleftrightarrow>
        (\<exists>entry. c key = Some entry \<and> entry_data entry = v \<and> now \<le> expiry entry))"
  by (auto simp: cache_set_def cache_get_def split: option.splits)

section \<open>Backoff (claim C5)\<close>

text \<open>
  Claim C5. For a random draw in \<open>[0, 1)\<close> the jitter \<open>rnd * 0.3 + 0.85\<close> lies in
  \<open>[0.85, 1.15)\<close>, and \<open>calculateBackoff\<close> returns the minimum of 10000 and
  \<open>baseDelay * 2 ^ attempt * jitter\<close>, with \<open>baseDelay = 300\<close> when it is left out. The delay
  never exceeds 10000. With the draw fixed the delay is a function of the attempt and the
  base delay alone.
\<close>

theorem calculateBackoff_formula:
  assumes "0 \<le> rnd" and "rnd < 1"
  shows "0.85 \<le> rnd * 0.3 + 0.85 \<and> rnd * 0.3 + 0.85 < 1.15
    \<and> calculateBackoff rnd attempt (Some baseDelay)
        = min 10000 (baseDelay * 2 ^ attempt * (rnd * 0.3 + 0.85))
    \<and> calculateBackoff rnd attempt None = calculateBackoff rnd attempt (Some 300)
    \<and> calculateBackoff rnd attempt baseDelayArg \<le> 10000"
  using assms by (simp add: calculateBackoff_def Let_def)

theorem calculateBackoff_formula_witness:
  "calculateBackoff (1/2) 3 None = 2400 \<and> calculateBackoff (1/2) 6 None = 10000"
  using calculateBackoff_formula [of "1/2" 3 300 None] calculateBackoff_formula [of "1/2" 6 300 None]
  by simp

section \<open>The pending-request registry (claim C4)\<close>




section \<open>Teardown (claim C6)\<close>

text \<open>
  Claim C6 says that after teardown no background activity of the instance remains: the
  pending requests are cancelled and the sweep timer of the constructor is stopped. The
  first half holds, the second does not: after \<open>dispose\<close> on a fresh SDK the timer with period
  60000 is still scheduled, and when it fires the sweep runs.
\<close>

theorem dispose_leaves_sweep_timer:
  "(60000, ClearExpiredCache) \<in> set (intervals (apiService (dispose (new_KolcoinSDK sample_sdk_config))))
   \<and> interval_fires (sample_env ''HTTP_503'') (60000, ClearExpiredCache)
        (apiService (dispose (new_KolcoinSDK sample_sdk_config)))
      = run_callback (sample_env ''HTTP_503'') ClearExpiredCache
        (apiService (dispose (new_KolcoinSDK sample_sdk_config)))"
  by (simp add: dispose_def new_KolcoinSDK_def new_KolcoinApiService_def cancelAllRequests_def
        interval_fires_def)

text \<open>
  Claim C6, as amended. \<open>cancelAllRequests\<close> invokes the cancel handle of every entry of the
  registry, in the order of the registry, and leaves the registry empty; \<open>dispose\<close> does this
  and removes the event listeners. The sweep timer started at construction, with period
  60000, is not stopped by it: \<open>dispose\<close> leaves the timers as they are, and in every state the
  service can reach the timer is scheduled and its firing runs the sweep.
\<close>

theorem dispose_effects:
  "pendingRequests (cancelAllRequests s) = []
   \<and> aborted (cancelAllRequests s) = aborted s @ map snd (pendingRequests s)
   \<and> apiService (dispose sdk) = cancelAllRequests (apiService sdk)
   \<and> listeners (dispose sdk) = []
   \<and> intervals (apiService (dispose sdk)) = intervals (apiService sdk)
   \<and> intervals (new_KolcoinApiService opts) = [(60000, ClearExpiredCache)]
   \<and> (reachable s \<longrightarrow> intervals s = [(60000, ClearExpiredCache)])
   \<and> (reachable s \<longrightarrow>
        interval_fires e (60000, ClearExpiredCache) s = run_callback e ClearExpiredCache s)"
  using reachable_intervals [of s]
  by (simp add: dispose_def new_KolcoinApiService_def cancelAllRequests_def interval_fires_def)

theorem dispose_effects_witness:
  "intervals (cancelAllRequests (register_pending ''k'' (cancel_duplicate ''k''
       (new_KolcoinApiService (sample_options None))))) = [(60000, ClearExpiredCache)]
   \<and> aborted (cancelAllRequests (register_pending ''k'' (cancel_duplicate ''k''
       (new_KolcoinApiService (sample_options None))))) = [0]
   \<and> pendingRequests (cancelAllRequests (register_pending ''k'' (cancel_duplicate ''k''
       (new_KolcoinApiService (sample_options None))))) = []"
proof -
  define s1 where "s1 = register_pending ''k'' (cancel_duplicate ''k''
       (new_KolcoinApiService (sample_options None)))"
  have "reachable (cancelAllRequests s1)"
    unfolding s1_def by (intro reachable.intros)
  moreover have "aborted s1 = []" "pendingRequests s1 = [(''k'', 0)]"
    by (simp_all add: s1_def new_KolcoinApiService_def cancel_duplicate_def)
  ultimately show ?thesis
    using dispose_effects [of s1] dispose_effects [of "cancelAllRequests s1"]
    unfolding s1_def [symmetric]
    by simp
qed

section \<open>Transfers and the cache (claim C7)\<close>

text \<open>
  Claim C7. A call of \<open>transferTokens\<close> leaves the cache as it found it and does not read the
  clock, which every cache lookup and every cache store does; its result does not depend on
  what the cache holds. In general, \<open>executeRequest\<close> with \<open>useCache\<close> off leaves the cache
  unchanged; the cache is looked up only when \<open>useCache\<close> holds and \<open>bypassCache\<close> does not, and
  it is written only when the response succeeded and \<open>useCache\<close> holds.
\<close>

theorem transfer_bypasses_cache:
  "cache (snd (transferTokens e p s)) = cache s
   \<and> clock_reads (snd (transferTokens e p s)) = clock_reads s
   \<and> transferTokens e p (s\<lparr>cache := c\<rparr>)
       = (fst (transferTokens e p s), (snd (transferTokens e p s))\<lparr>cache := c\<rparr>)
   \<and> (\<not> useCache options \<longrightarrow> cache (snd (executeRequest e config options s)) = cache s)
   \<and> (\<not> (useCache options \<and> \<not> bypassCache options) \<longrightarrow>
        after_lookup e config options s = (None, s))
   \<and> (\<not> (success response \<and> useCache options) \<longrightarrow>
        cache_and_return e k (useCache options) response s = (response, s))"
proof -
  have off: "\<not> useCache (default_options\<lparr>useCache := False\<rparr>)"
    by simp
  show ?thesis
    using no_cache_use [OF off, where e = e and s = s]
      result_ignores_cache [OF off, where e = e and s = s and c = c]
      no_cache_use [where options = options and e = e and config = config and s = s]
    by (auto simp: transferTokens_def after_lookup_def cache_and_return_def)
qed

theorem transfer_bypasses_cache_witness:
  "cache (snd (executeRequest (sample_env ''HTTP_503'') sample_config
       (default_options\<lparr>useCache := False\<rparr>) (new_KolcoinApiService (sample_options None))))
     = Map.empty
   \<and> cache (snd (transferTokens (sample_env ''HTTP_503'') (sample_transfer 5)
       (new_KolcoinApiService (sample_options None)))) = Map.empty"
  using transfer_bypasses_cache [of "sample_env ''HTTP_503''" "sample_transfer 5"
      "new_KolcoinApiService (sample_options None)" Map.empty
      "default_options\<lparr>useCache := False\<rparr>" sample_config]
  by (simp add: new_KolcoinApiService_def)

section \<open>Input validation (claims C8 and C9)\<close>

text \<open>
  Claim C8. For a wallet string that is not a valid address, each of the four domain methods
  (\<open>transferTokens\<close> for its sender as for its receiver) returns the envelope with
  \<open>success = False\<close> and the code \<^verbatim>\<open>INVALID_WALLET\<close> and leaves the state of the service as it
  was: no fetch is issued, and neither the cache nor the registry changes.
\<close>

theorem invalid_wallet_short_circuit:
  assumes "\<not> isValidSolanaAddress w"
  shows "checkVerificationStatus e w s
           = (error_response ''INVALID_WALLET'' ''The provided wallet address is invalid'' None, s)
    \<and> checkWhitelistStatus e w s
           = (error_response ''INVALID_WALLET'' ''The provided wallet address is invalid'' None, s)
    \<and> getKolMetrics e w s
           = (error_response ''INVALID_WALLET'' ''The provided wallet address is invalid'' None, s)
    \<and> transferTokens e (p\<lparr>tx_from := w\<rparr>) s
           = (error_response ''INVALID_WALLET'' ''One or more wallet addresses are invalid'' None, s)
    \<and> transferTokens e (p\<lparr>tx_to := w\<rparr>) s
           = (error_response ''INVALID_WALLET'' ''One or more wallet addresses are invalid'' None, s)
    \<and> success (error_response ''INVALID_WALLET'' msg None) = False
    \<and> map_option code (error (error_response ''INVALID_WALLET'' msg None)) = Some ''INVALID_WALLET''"
  using assms
  by (simp add: checkVerificationStatus_def checkWhitelistStatus_def getKolMetrics_def
        transferTokens_def invalid_wallet_def error_response_def)

theorem invalid_wallet_short_circuit_witness:
  "checkVerificationStatus (sample_env ''HTTP_503'') ''0xABC'' (new_KolcoinApiService (sample_options None))
     = (error_response ''INVALID_WALLET'' ''The provided wallet address is invalid'' None,
        new_KolcoinApiService (sample_options None))
   \<and> transferTokens (sample_env ''HTTP_503'') ((sample_transfer 5)\<lparr>tx_to := ''0xABC''\<rparr>)
        (new_KolcoinApiService (sample_options None))
     = (error_response ''INVALID_WALLET'' ''One or more wallet addresses are invalid'' None,
        new_KolcoinApiService (sample_options None))"
proof -
  have "\<not> isValidSolanaAddress ''0xABC''"
    by (simp add: isValidSolanaAddress_def)
  from invalid_wallet_short_circuit [OF this] show ?thesis
    by simp
qed

text \<open>
  Claim C9. For transfer parameters with valid sender and receiver and an amount that is not
  positive, \<open>transferTokens\<close> returns the envelope with \<open>success = False\<close> and the code
  \<^verbatim>\<open>INVALID_AMOUNT\<close> and leaves the state of the service as it was. The example of the
  specification, with amount 0, is proved after it.
\<close>

theorem invalid_amount_short_circuit:
  assumes "isValidSolanaAddress (tx_from p)" and "isValidSolanaAddress (tx_to p)"
    and "amount p \<le> 0"
  shows "transferTokens e p s
           = (error_response ''INVALID_AMOUNT'' ''Transfer amount must be greater than zero'' None, s)
    \<and> success (fst (transferTokens e p s)) = False
    \<and> map_option code (error (fst (transferTokens e p s))) = Some ''INVALID_AMOUNT''"
  using assms by (simp add: transferTokens_def error_response_def)

theorem invalid_amount_short_circuit_witness:
  "transferTokens (sample_env ''HTTP_503'')
      \<lparr> tx_from = ''11111111111111111111111111111111'',
        tx_to = ''22222222222222222222222222222222'', amount = 0, memo = None,
        tx_object = [(''from'', JStr ''11111111111111111111111111111111''),
                     (''to'', JStr ''22222222222222222222222222222222''),
                     (''amount'', JNum 0)] \<rparr>
      (new_KolcoinApiService (sample_options None))
     = (\<lparr> success = False, data = None,
          error = Some \<lparr> code = ''INVALID_AMOUNT'',
                         message = ''Transfer amount must be greater than zero'',
                         details = None \<rparr>,
          pagination = None \<rparr>,
        new_KolcoinApiService (sample_options None))"
  using invalid_amount_short_circuit
    [of "\<lparr> tx_from = ''11111111111111111111111111111111'',
          tx_to = ''22222222222222222222222222222222'', amount = 0, memo = None,
          tx_object = [(''from'', JStr ''11111111111111111111111111111111''),
                       (''to'', JStr ''22222222222222222222222222222222''),
                       (''amount'', JNum 0)] \<rparr>"
        "sample_env ''HTTP_503''" "new_KolcoinApiService (sample_options None)"]
    valid_samples
  by (simp add: error_response_def)

section \<open>Constructor defaults (claim C10)\<close>

text \<open>
  Claim C10 ends with: only \<^verbatim>\<open>autoRetry: false\<close> disables retries. A service built with
  \<open>maxRetries = -1\<close> and \<open>autoRetry\<close> left out keeps \<open>-1\<close> (it is truthy) and never retries: a
  transient error of the first fetch is returned after that one fetch, with no backoff.
\<close>

theorem negative_maxRetries_disables_retries:
  "opt_autoRetry (sample_options (Some (- 1))) \<noteq> Some False
   \<and> autoRetry (new_KolcoinApiService (sample_options (Some (- 1))))
   \<and> maxRetries (new_KolcoinApiService (sample_options (Some (- 1)))) = - 1
   \<and> shouldRetry (sample_response ''HTTP_503'')
   \<and> fst (executeRequest (sample_env ''HTTP_503'') sample_config default_options
        (new_KolcoinApiService (sample_options (Some (- 1))))) = sample_response ''HTTP_503''
   \<and> sleeps (snd (executeRequest (sample_env ''HTTP_503'') sample_config default_options
        (new_KolcoinApiService (sample_options (Some (- 1)))))) = []
   \<and> fetches (snd (executeRequest (sample_env ''HTTP_503'') sample_config default_options
        (new_KolcoinApiService (sample_options (Some (- 1)))))) = 1"
proof -
  have cfg: "autoRetry (new_KolcoinApiService (sample_options (Some (- 1))))"
    "maxRetries (new_KolcoinApiService (sample_options (Some (- 1)))) = - 1"
    "sleeps (new_KolcoinApiService (sample_options (Some (- 1)))) = []"
    "fetches (new_KolcoinApiService (sample_options (Some (- 1)))) = 0"
    by (simp_all add: new_KolcoinApiService_def sample_options_def number_or_def)
  have net: "network (sample_env ''HTTP_503'') n = Settles (sample_response ''HTTP_503'')" for n
    by (simp add: sample_env_def)
  have sr: "shouldRetry (sample_response ''HTTP_503'')" "\<not> success (sample_response ''HTTP_503'')"
    by (simp_all add: shouldRetry_def sample_response_def error_response_def)
  have "executeRequest (sample_env ''HTTP_503'') sample_config default_options
          (new_KolcoinApiService (sample_options (Some (- 1))))
        = (sample_response ''HTTP_503'',
           after_settle (sample_env ''HTTP_503'') sample_config default_options
             (new_KolcoinApiService (sample_options (Some (- 1)))))"
    by (subst executeRequest_unfold)
       (simp add: fresh_service_first_fetch net cfg sr cache_and_return_def default_options_fields)
  moreover have "opt_autoRetry (sample_options (Some (- 1))) \<noteq> Some False"
    by (simp add: sample_options_def)
  ultimately show ?thesis
    by (simp add: cfg sr)
qed

text \<open>
  Claim C10, as amended. A falsy option is replaced by the default: \<open>maxRetries = 0\<close> gives 3
  and \<open>cacheTime = 0\<close> gives 60000, as an absent option does, and every other value is kept.
  So \<open>maxRetries = 0\<close> does not disable retries. On a fresh service, a transient error of the
  first fetch is followed by no retry exactly when \<open>autoRetry\<close> was given as false or
  \<open>maxRetries\<close> was given negative.
\<close>

theorem constructor_falsy_defaults:
  "maxRetries (new_KolcoinApiService (opts\<lparr>opt_maxRetries := Some 0\<rparr>)) = 3
   \<and> cacheTime (new_KolcoinApiService (opts\<lparr>opt_cacheTime := Some 0\<rparr>)) = 60000
   \<and> maxRetries (new_KolcoinApiService opts)
       = (case opt_maxRetries opts of None \<Rightarrow> 3 | Some n \<Rightarrow> if n = 0 then 3 else n)
   \<and> cacheTime (new_KolcoinApiService opts)
       = (case opt_cacheTime opts of None \<Rightarrow> 60000 | Some n \<Rightarrow> if n = 0 then 60000 else n)
   \<and> autoRetry (new_KolcoinApiService opts) = (opt_autoRetry opts \<noteq> Some False)
   \<and> (network e 0 = Settles response \<and> \<not> success response \<and> shouldRetry response \<longrightarrow>
        (sleeps (snd (executeRequest e config default_options (new_KolcoinApiService opts))) = []
         \<longleftrightarrow> opt_autoRetry opts = Some False \<or> (\<exists>n. opt_maxRetries opts = Some n \<and> n < 0)))"
proof -
  define s0 where "s0 = new_KolcoinApiService opts"
  have fields: "maxRetries s0 = number_or (opt_maxRetries opts) 3"
    "autoRetry s0 = (opt_autoRetry opts \<noteq> Some False)" "sleeps s0 = []"
    by (simp_all add: s0_def new_KolcoinApiService_def)
  have pos: "0 < maxRetries s0 \<longleftrightarrow> \<not> (\<exists>n. opt_maxRetries opts = Some n \<and> n < 0)"
    by (auto simp: fields number_or_def split: option.split)
  have decide: "sleeps (snd (executeRequest e config default_options s0)) = []
      \<longleftrightarrow> \<not> (autoRetry s0 \<and> 0 < maxRetries s0)"
    if net: "network e 0 = Settles response" and err: "\<not> success response"
      and tr: "shouldRetry response"
  proof (cases "autoRetry s0 \<and> 0 < maxRetries s0")
    case True
    let ?o = "\<lparr> useCache = useCache default_options, bypassCache = True,
                retryCount = retryCount default_options + 1 \<rparr>"
    let ?s = "backoff_sleep e (retryCount default_options)
                (after_settle e config default_options s0)"
    have "executeRequest e config default_options s0 = executeRequest e config ?o ?s"
      using True net err tr
      by (subst executeRequest_unfold)
         (simp add: s0_def fresh_service_first_fetch default_options_fields)
    moreover have "length (sleeps ?s) \<le> length (sleeps (snd (executeRequest e config ?o ?s)))"
      by (rule sleeps_grow)
    ultimately show ?thesis
      using True by auto
  next
    case False
    have "executeRequest e config default_options s0
          = (response, after_settle e config default_options s0)"
      using False net err
      by (subst executeRequest_unfold)
         (auto simp: s0_def fresh_service_first_fetch default_options_fields cache_and_return_def)
    then show ?thesis
      using False by (simp add: fields)
  qed
  show ?thesis
    using decide pos
    unfolding s0_def [symmetric]
    by (auto simp: fields s0_def new_KolcoinApiService_def number_or_def split: option.split)
qed

theorem constructor_falsy_defaults_witness:
  "maxRetries (new_KolcoinApiService (sample_options (Some 0))) = 3
   \<and> sleeps (snd (executeRequest (sample_env ''HTTP_503'') sample_config default_options
        (new_KolcoinApiService (sample_options (Some 0))))) \<noteq> []
   \<and> sleeps (snd (executeRequest (sample_env ''HTTP_503'') sample_config default_options
        (new_KolcoinApiService ((sample_options (Some 0))\<lparr>opt_autoRetry := Some False\<rparr>)))) = []"
proof -
  have net: "network (sample_env ''HTTP_503'') 0 = Settles (sample_response ''HTTP_503'')"
    by (simp add: sample_env_def)
  have sr: "shouldRetry (sample_response ''HTTP_503'')" "\<not> success (sample_response ''HTTP_503'')"
    by (simp_all add: shouldRetry_def sample_response_def error_response_def)
  show ?thesis
    using constructor_falsy_defaults [of "sample_options (Some 0)" "sample_env ''HTTP_503''"
        "sample_response ''HTTP_503''" sample_config]
      constructor_falsy_defaults [of "(sample_options (Some 0))\<lparr>opt_autoRetry := Some False\<rparr>"
        "sample_env ''HTTP_503''" "sample_response ''HTTP_503''" sample_config]
      net sr
    by (simp add: sample_options_def)
qed

end
